theory Spec2Isabelle
  imports
    Main
    "HOL-Library.Char_ord"
    "HOL-Library.List_Lexorder"
    "HOL-Library.Option_ord"
    "HOL-Library.Product_Lexorder"
begin

section \<open>Time and the lateness policy\<close>

text \<open>
  A JavaScript \<open>Date\<close> is a number of milliseconds since the epoch. The calendar date
  used as the record key is \<open>new Date().toISOString().split("T")[0]\<close>, the UTC day, kept
  here as the number of that day. Local time is UTC shifted by a fixed offset
  \<open>tzOffset\<close> (daylight-saving changes are outside the model).
  \<open>WORK_START_TIME\<close> is a clock time \<open>H:M\<close> or \<open>H:M:S\<close>, kept as its numbers
  \<open>startHour\<close>, \<open>startMinute\<close> and \<open>startSecond\<close> (0 when the seconds are not
  given). \<open>isLate\<close> splits the text at the colons and keeps the first two numbers;
  \<open>calculateMinutesLate\<close> hands the whole text to the parser of \<open>Date\<close>, which
  reads the seconds too.
\<close>

type_synonym timestamp = int
type_synonym date = int

record env =
  startHour :: int
  startMinute :: int
  startSecond :: int
  tzOffset :: int

definition work_start_0900 :: "int \<Rightarrow> env" where
  "work_start_0900 tz = \<lparr>startHour = 9, startMinute = 0, startSecond = 0, tzOffset = tz\<rparr>"

text \<open>\<open>WORK_START_TIME\<close> written as hour and minute, \<open>HH:MM\<close>.\<close>

definition hour_minute_form :: "env \<Rightarrow> bool" where
  "hour_minute_form cfg \<longleftrightarrow>
     0 \<le> startHour cfg \<and> startHour cfg < 24 \<and> 0 \<le> startMinute cfg \<and> startMinute cfg < 60
     \<and> startSecond cfg = 0"

definition getTodayDate :: "timestamp \<Rightarrow> date" where
  "getTodayDate now = now div 86400000"

text \<open>The local calendar day of an instant (what \<open>toDateString\<close> prints).\<close>

definition toDateString :: "env \<Rightarrow> timestamp \<Rightarrow> int" where
  "toDateString cfg t = (t + tzOffset cfg) div 86400000"

text \<open>The instant at which the local clock shows \<open>h:m:00.000\<close> on local day \<open>d\<close>.\<close>

definition localDateTime :: "env \<Rightarrow> int \<Rightarrow> int \<Rightarrow> int \<Rightarrow> timestamp" where
  "localDateTime cfg d h m = d * 86400000 + (h * 60 + m) * 60000 - tzOffset cfg"

text \<open>\<open>startTime.setHours(startHour, startMinute, 0, 0)\<close> on a copy of the date.\<close>

definition setHours :: "env \<Rightarrow> timestamp \<Rightarrow> int \<Rightarrow> int \<Rightarrow> timestamp" where
  "setHours cfg t h m = localDateTime cfg (toDateString cfg t) h m"

text \<open>The time of day on the local clock, in milliseconds after local midnight.\<close>

definition timeOfDay :: "env \<Rightarrow> timestamp \<Rightarrow> int" where
  "timeOfDay cfg t = (t + tzOffset cfg) mod 86400000"

definition isLate :: "env \<Rightarrow> timestamp \<Rightarrow> bool" where
  "isLate cfg checkInTime =
     (let checkIn = checkInTime;
          startTime = setHours cfg checkIn (startHour cfg) (startMinute cfg)
      in checkIn > startTime)"

text \<open>
  \<open>new Date(checkInTime.toDateString() + " " + workStartTime)\<close> is the instant at
  which the local clock shows the whole of \<open>WORK_START_TIME\<close>, seconds included, on
  the local day of the check-in; the difference of two dates is in milliseconds and
  \<open>Math.floor\<close> of the quotient is the floored division.
\<close>

definition calculateMinutesLate :: "env \<Rightarrow> timestamp \<Rightarrow> int" where
  "calculateMinutesLate cfg checkInTime =
     (let startTime = localDateTime cfg (toDateString cfg checkInTime) (startHour cfg) (startMinute cfg)
                        + startSecond cfg * 1000
      in (checkInTime - startTime) div (1000 * 60))"

section \<open>The two tables of the durable store\<close>

text \<open>
  \<open>employees(id, name, email, department, manager_id)\<close> and
  \<open>attendance(id, employee_id, date, check_in_time, check_out_time)\<close>, with
  \<open>UNIQUE(employee_id, date)\<close> and a foreign key from \<open>attendance.employee_id\<close> to
  \<open>employees.id\<close>. Only the columns the attendance service reads or writes are kept.
  A table is the list of its rows. Times are stored as the instants they denote.
\<close>

record employee =
  emp_id :: nat
  emp_name :: string
  emp_department :: string

record attendance_row =
  att_employee_id :: nat
  att_date :: date
  att_check_in_time :: "timestamp option"
  att_check_out_time :: "timestamp option"

definition has_key :: "nat \<Rightarrow> date \<Rightarrow> attendance_row \<Rightarrow> bool" where
  "has_key userId d r \<longleftrightarrow> att_employee_id r = userId \<and> att_date r = d"

text \<open>
  \<open>INSERT INTO attendance (employee_id, date, check_in_time) VALUES (?, ?, ?)
  ON DUPLICATE KEY UPDATE check_in_time = VALUES(check_in_time)\<close>:
  a row with the same key gets the new check-in time, otherwise a row is added.
\<close>

definition insert_on_duplicate_key_update ::
  "attendance_row list \<Rightarrow> nat \<Rightarrow> date \<Rightarrow> timestamp \<Rightarrow> attendance_row list" where
  "insert_on_duplicate_key_update rows userId d checkInTime =
     (if \<exists>r \<in> set rows. has_key userId d r
      then map (\<lambda>r. if has_key userId d r
                      then r\<lparr>att_check_in_time := Some checkInTime\<rparr> else r) rows
      else rows @ [\<lparr>att_employee_id = userId, att_date = d,
                     att_check_in_time = Some checkInTime, att_check_out_time = None\<rparr>])"

text \<open>
  \<open>UPDATE attendance SET check_out_time = ? WHERE employee_id = ? AND date = ?\<close>,
  with \<open>affectedRows\<close> the number of rows the \<open>WHERE\<close> clause matched.
\<close>

definition update_check_out ::
  "attendance_row list \<Rightarrow> nat \<Rightarrow> date \<Rightarrow> timestamp \<Rightarrow> nat \<times> attendance_row list" where
  "update_check_out rows userId d checkOutTime =
     (length (filter (has_key userId d) rows),
      map (\<lambda>r. if has_key userId d r
                then r\<lparr>att_check_out_time := Some checkOutTime\<rparr> else r) rows)"

text \<open>\<open>SELECT id, name, department FROM employees WHERE id IN (...)\<close>.\<close>

definition select_employees_in :: "employee list \<Rightarrow> nat set \<Rightarrow> employee list" where
  "select_employees_in emps ids = filter (\<lambda>e. emp_id e \<in> ids) emps"

text \<open>
  The report query: every employee, left-joined with the attendance rows of that employee
  whose date is between the two bounds, ordered by name and date. An employee without
  such a row appears once, with \<open>NULL\<close> in the attendance columns; \<open>NULL\<close> sorts first.
  Names are compared as character lists.
\<close>

record report_row =
  r_id :: nat
  r_name :: string
  r_department :: string
  r_date :: "date option"
  r_check_in_time :: "timestamp option"
  r_check_out_time :: "timestamp option"

definition joined_row :: "employee \<Rightarrow> attendance_row \<Rightarrow> report_row" where
  "joined_row e a =
     \<lparr>r_id = emp_id e, r_name = emp_name e, r_department = emp_department e,
      r_date = Some (att_date a), r_check_in_time = att_check_in_time a,
      r_check_out_time = att_check_out_time a\<rparr>"

definition null_row :: "employee \<Rightarrow> report_row" where
  "null_row e =
     \<lparr>r_id = emp_id e, r_name = emp_name e, r_department = emp_department e,
      r_date = None, r_check_in_time = None, r_check_out_time = None\<rparr>"

definition left_join :: "attendance_row list \<Rightarrow> date \<Rightarrow> date \<Rightarrow> employee \<Rightarrow> report_row list" where
  "left_join rows startDate endDate e =
     (let matching = filter (\<lambda>a. emp_id e = att_employee_id a
                                \<and> startDate \<le> att_date a \<and> att_date a \<le> endDate) rows
      in if matching = [] then [null_row e] else map (joined_row e) matching)"

definition select_report_rows ::
  "employee list \<Rightarrow> attendance_row list \<Rightarrow> date \<Rightarrow> date \<Rightarrow> report_row list" where
  "select_report_rows emps rows startDate endDate =
     sort_key (\<lambda>r. (r_name r, r_date r)) (concat (map (left_join rows startDate endDate) emps))"

section \<open>The cache and the queue\<close>

text \<open>
  A Redis string key set with \<open>SETEX\<close> holds its value and the instant at which it
  expires; a read after that instant finds nothing. Keys of different prefixes
  (\<open>checkin:\<close>, \<open>report:\<close>) are kept in different maps.
\<close>

type_synonym ('k, 'v) redis_strings = "'k \<rightharpoonup> ('v \<times> timestamp)"

definition redis_get :: "('k, 'v) redis_strings \<Rightarrow> timestamp \<Rightarrow> 'k \<Rightarrow> 'v option" where
  "redis_get m now k =
     (case m k of None \<Rightarrow> None
      | Some (v, expires) \<Rightarrow> if now > expires then None else Some v)"

definition redis_setEx ::
  "('k, 'v) redis_strings \<Rightarrow> timestamp \<Rightarrow> 'k \<Rightarrow> int \<Rightarrow> 'v \<Rightarrow> ('k, 'v) redis_strings" where
  "redis_setEx m now k seconds v = m(k \<mapsto> (v, now + seconds * 1000))"

record report =
  startDate :: date
  endDate :: date
  records :: "report_row list"

record notification_job =
  job_employeeId :: nat
  job_employeeName :: string
  job_checkInTime :: timestamp
  job_minutesLate :: int

text \<open>
  The state the service works on: both tables, the three kinds of Redis keys, the jobs of
  the Bull queue and whether the queue accepts a job. \<open>db_statements\<close> counts the
  statements sent through \<open>pool.execute\<close>. The presence set holds the ids themselves
  (the source stores \<open>userId.toString()\<close>), and a cached report is the report itself
  (\<open>JSON.parse\<close> of its \<open>JSON.stringify\<close>).
\<close>

record system_state =
  employees :: "employee list"
  attendance :: "attendance_row list"
  db_statements :: nat
  checkin_keys :: "(nat \<times> date, timestamp) redis_strings"
  report_keys :: "(date \<times> date, report) redis_strings"
  employees_in_office :: "nat set"
  emailQueue :: "notification_job list"
  queue_available :: bool

section \<open>The attendance service\<close>

text \<open>
  The errors a call can end with: the two the service throws itself
  (\<open>"Already checked in today"\<close>, \<open>"No check-in record found for today"\<close>), the
  rejection of an insert by the foreign key, and the rejection of \<open>emailQueue.add\<close>.
\<close>

datatype error =
  AlreadyCheckedInToday
  | NoCheckInRecordFound
  | ForeignKeyViolation
  | QueueAddFailed

definition hasCheckedInToday :: "system_state \<Rightarrow> timestamp \<Rightarrow> nat \<Rightarrow> date \<Rightarrow> bool" where
  "hasCheckedInToday s now userId d =
     (case redis_get (checkin_keys s) now (userId, d) of None \<Rightarrow> False | Some _ \<Rightarrow> True)"

text \<open>
  The three awaited operations of \<open>recordCheckIn\<close>, in the order of the source. The
  insert is refused by the foreign key when the employee has no row in the employees
  table; under that key no attendance row exists for such an employee.
\<close>

definition execute_insert ::
  "system_state \<Rightarrow> nat \<Rightarrow> date \<Rightarrow> timestamp \<Rightarrow> (error + unit) \<times> system_state" where
  "execute_insert s userId d checkInTime =
     (let s1 = s\<lparr>db_statements := db_statements s + 1\<rparr>
      in if userId \<notin> emp_id ` set (employees s) then (Inl ForeignKeyViolation, s1)
         else (Inr (), s1\<lparr>attendance :=
                 insert_on_duplicate_key_update (attendance s) userId d checkInTime\<rparr>))"

definition setEx_checkin :: "system_state \<Rightarrow> timestamp \<Rightarrow> nat \<Rightarrow> date \<Rightarrow> timestamp \<Rightarrow> system_state" where
  "setEx_checkin s now userId d checkInTime =
     s\<lparr>checkin_keys := redis_setEx (checkin_keys s) now (userId, d) 86400 checkInTime\<rparr>"

definition sAdd_in_office :: "system_state \<Rightarrow> nat \<Rightarrow> system_state" where
  "sAdd_in_office s userId = s\<lparr>employees_in_office := insert userId (employees_in_office s)\<rparr>"

definition recordCheckIn ::
  "system_state \<Rightarrow> timestamp \<Rightarrow> nat \<Rightarrow> date \<Rightarrow> timestamp \<Rightarrow> (error + unit) \<times> system_state" where
  "recordCheckIn s now userId d checkInTime =
     (case execute_insert s userId d checkInTime of
        (Inl e, s1) \<Rightarrow> (Inl e, s1)
      | (Inr _, s1) \<Rightarrow>
          (Inr (), sAdd_in_office (setEx_checkin s1 now userId d checkInTime) userId))"

definition recordCheckOut ::
  "system_state \<Rightarrow> nat \<Rightarrow> date \<Rightarrow> timestamp \<Rightarrow> (error + unit) \<times> system_state" where
  "recordCheckOut s userId d checkOutTime =
     (let (affectedRows, rows) = update_check_out (attendance s) userId d checkOutTime;
          s1 = s\<lparr>db_statements := db_statements s + 1, attendance := rows\<rparr>
      in if affectedRows = 0 then (Inl NoCheckInRecordFound, s1)
         else (Inr (), s1\<lparr>employees_in_office := employees_in_office s1 - {userId}\<rparr>))"

definition queueLateNotification ::
  "system_state \<Rightarrow> nat \<Rightarrow> string \<Rightarrow> timestamp \<Rightarrow> int \<Rightarrow> (error + unit) \<times> system_state" where
  "queueLateNotification s employeeId employeeName checkInTime minutesLate =
     (if queue_available s
      then (Inr (), s\<lparr>emailQueue := emailQueue s @
              [\<lparr>job_employeeId = employeeId, job_employeeName = employeeName,
                job_checkInTime = checkInTime, job_minutesLate = minutesLate\<rparr>]\<rparr>)
      else (Inl QueueAddFailed, s))"

definition getCurrentEmployeesInOffice :: "system_state \<Rightarrow> employee list \<times> system_state" where
  "getCurrentEmployeesInOffice s =
     (let employeeIds = employees_in_office s
      in if employeeIds = {} then ([], s)
         else (select_employees_in (employees s) employeeIds,
               s\<lparr>db_statements := db_statements s + 1\<rparr>))"

definition getAttendanceReport ::
  "system_state \<Rightarrow> timestamp \<Rightarrow> date \<Rightarrow> date \<Rightarrow> report \<times> system_state" where
  "getAttendanceReport s now sd ed =
     (case redis_get (report_keys s) now (sd, ed) of
        Some cachedReport \<Rightarrow> (cachedReport, s)
      | None \<Rightarrow>
          (let rows = select_report_rows (employees s) (attendance s) sd ed;
               rep = \<lparr>startDate = sd, endDate = ed, records = rows\<rparr>
           in (rep, s\<lparr>db_statements := db_statements s + 1,
                      report_keys := redis_setEx (report_keys s) now (sd, ed) 3600 rep\<rparr>)))"

text \<open>
  A call reads the clock when it starts: \<open>now\<close> gives the date of today and the time of
  the check-in or check-out, and is the time at which the Redis keys are read and set.
\<close>

record checkin_response =
  resp_message :: string
  resp_checkInTime :: timestamp
  resp_isLate :: bool

definition checkIn ::
  "env \<Rightarrow> system_state \<Rightarrow> timestamp \<Rightarrow> nat \<Rightarrow> string \<Rightarrow> (error + checkin_response) \<times> system_state" where
  "checkIn cfg s now userId userName =
     (let today = getTodayDate now;
          checkInTime = now
      in if hasCheckedInToday s now userId today then (Inl AlreadyCheckedInToday, s)
         else
           (case recordCheckIn s now userId today checkInTime of
              (Inl e, s1) \<Rightarrow> (Inl e, s1)
            | (Inr _, s1) \<Rightarrow>
                (let late = isLate cfg checkInTime;
                     response = \<lparr>resp_message = ''Checked in successfully'',
                                 resp_checkInTime = checkInTime, resp_isLate = late\<rparr>
                 in if late
                    then (case queueLateNotification s1 userId userName checkInTime
                                 (calculateMinutesLate cfg checkInTime) of
                            (Inl e, s2) \<Rightarrow> (Inl e, s2)
                          | (Inr _, s2) \<Rightarrow> (Inr response, s2))
                    else (Inr response, s1))))"

record checkout_response =
  out_message :: string
  out_checkOutTime :: timestamp

definition checkOut ::
  "system_state \<Rightarrow> timestamp \<Rightarrow> nat \<Rightarrow> (error + checkout_response) \<times> system_state" where
  "checkOut s now userId =
     (let today = getTodayDate now;
          checkOutTime = now
      in case recordCheckOut s userId today checkOutTime of
           (Inl e, s1) \<Rightarrow> (Inl e, s1)
         | (Inr _, s1) \<Rightarrow>
             (Inr \<lparr>out_message = ''Checked out successfully'',
                   out_checkOutTime = checkOutTime\<rparr>, s1))"

text \<open>
  The controller of \<open>GET /reports\<close>: both query parameters must be present, and nothing
  else about them is checked before the service is called.
\<close>

datatype http_body = ErrorBody string | ReportBody report

datatype http_response = Response nat http_body

definition getReports ::
  "system_state \<Rightarrow> timestamp \<Rightarrow> date option \<Rightarrow> date option \<Rightarrow> http_response \<times> system_state" where
  "getReports s now startDateParam endDateParam =
     (case (startDateParam, endDateParam) of
        (Some sd, Some ed) \<Rightarrow>
          (let (rep, s1) = getAttendanceReport s now sd ed
           in (Response 200 (ReportBody rep), s1))
      | _ \<Rightarrow> (Response 400 (ErrorBody ''Start date and end date are required''), s))"

section \<open>Calls of \<open>checkIn\<close> that run at the same time\<close>

text \<open>
  A call of \<open>checkIn\<close> gives up control at each \<open>await\<close>, and another call may run
  there. A call in progress is its arguments, the date and time it read when it started,
  and the awaited operation it is about to issue; one step issues that operation and runs
  the synchronous code up to the next \<open>await\<close> or to the return. Redis reads the clock
  of a call as the time the call started.
\<close>

datatype checkin_pc =
  AwaitGet
  | AwaitInsert
  | AwaitSetEx
  | AwaitSAdd
  | AwaitQueueAdd
  | Returned "error + checkin_response"

record checkin_call =
  call_userId :: nat
  call_userName :: string
  call_today :: date
  call_checkInTime :: timestamp
  call_pc :: checkin_pc

definition start_checkIn :: "timestamp \<Rightarrow> nat \<Rightarrow> string \<Rightarrow> checkin_call" where
  "start_checkIn now userId userName =
     \<lparr>call_userId = userId, call_userName = userName, call_today = getTodayDate now,
      call_checkInTime = now, call_pc = AwaitGet\<rparr>"

definition step_checkIn :: "env \<Rightarrow> system_state \<Rightarrow> checkin_call \<Rightarrow> system_state \<times> checkin_call" where
  "step_checkIn cfg s c =
     (let userId = call_userId c; userName = call_userName c;
          today = call_today c; checkInTime = call_checkInTime c;
          response = \<lparr>resp_message = ''Checked in successfully'',
                      resp_checkInTime = checkInTime, resp_isLate = isLate cfg checkInTime\<rparr>
      in case call_pc c of
           AwaitGet \<Rightarrow>
             if hasCheckedInToday s checkInTime userId today
             then (s, c\<lparr>call_pc := Returned (Inl AlreadyCheckedInToday)\<rparr>)
             else (s, c\<lparr>call_pc := AwaitInsert\<rparr>)
         | AwaitInsert \<Rightarrow>
             (case execute_insert s userId today checkInTime of
                (Inl e, s1) \<Rightarrow> (s1, c\<lparr>call_pc := Returned (Inl e)\<rparr>)
              | (Inr _, s1) \<Rightarrow> (s1, c\<lparr>call_pc := AwaitSetEx\<rparr>))
         | AwaitSetEx \<Rightarrow>
             (setEx_checkin s checkInTime userId today checkInTime, c\<lparr>call_pc := AwaitSAdd\<rparr>)
         | AwaitSAdd \<Rightarrow>
             (sAdd_in_office s userId,
              if isLate cfg checkInTime then c\<lparr>call_pc := AwaitQueueAdd\<rparr>
              else c\<lparr>call_pc := Returned (Inr response)\<rparr>)
         | AwaitQueueAdd \<Rightarrow>
             (case queueLateNotification s userId userName checkInTime
                     (calculateMinutesLate cfg checkInTime) of
                (Inl e, s1) \<Rightarrow> (s1, c\<lparr>call_pc := Returned (Inl e)\<rparr>)
              | (Inr _, s1) \<Rightarrow> (s1, c\<lparr>call_pc := Returned (Inr response)\<rparr>))
         | Returned r \<Rightarrow> (s, c))"

text \<open>A schedule names, step by step, the call that runs next.\<close>

fun run_schedule ::
  "env \<Rightarrow> nat list \<Rightarrow> system_state \<Rightarrow> checkin_call list \<Rightarrow> system_state \<times> checkin_call list" where
  "run_schedule cfg [] s cs = (s, cs)"
| "run_schedule cfg (i # sched) s cs =
     (if i < length cs
      then (case step_checkIn cfg s (cs ! i) of
              (s1, c1) \<Rightarrow> run_schedule cfg sched s1 (cs[i := c1]))
      else run_schedule cfg sched s cs)"

section \<open>Sample data\<close>

text \<open>
  Three employees of the seed data, no attendance yet, empty cache and queue; and the
  instant at which the local clock shows a given time on a given local day.
\<close>

definition sample_employees :: "employee list" where
  "sample_employees =
     [\<lparr>emp_id = 1, emp_name = ''Sarah Johnson'', emp_department = ''Management''\<rparr>,
      \<lparr>emp_id = 2, emp_name = ''Tom Wilson'', emp_department = ''IT''\<rparr>,
      \<lparr>emp_id = 3, emp_name = ''Alice Smith'', emp_department = ''IT''\<rparr>]"

definition sample_state :: system_state where
  "sample_state =
     \<lparr>employees = sample_employees, attendance = [], db_statements = 0,
      checkin_keys = Map.empty, report_keys = Map.empty, employees_in_office = {},
      emailQueue = [], queue_available = True\<rparr>"

definition utc_0900 :: env where
  "utc_0900 = work_start_0900 0"

text \<open>\<open>WORK_START_TIME=09:00:30\<close>, local time UTC.\<close>

definition utc_090030 :: env where
  "utc_090030 = \<lparr>startHour = 9, startMinute = 0, startSecond = 30, tzOffset = 0\<rparr>"

definition seeded_state :: system_state where
  "seeded_state =
     sample_state\<lparr>attendance :=
       [\<lparr>att_employee_id = 2, att_date = 19737,
         att_check_in_time = Some 1705308300000, att_check_out_time = None\<rparr>]\<rparr>"

definition queue_down_state :: system_state where
  "queue_down_state = sample_state\<lparr>queue_available := False\<rparr>"

definition stale_presence_state :: system_state where
  "stale_presence_state = sample_state\<lparr>employees_in_office := {2, 99}\<rparr>"

text \<open>The stored times of a key, as \<open>SELECT ... WHERE employee_id = ? AND date = ?\<close>.\<close>

definition select_check_in_time :: "attendance_row list \<Rightarrow> nat \<Rightarrow> date \<Rightarrow> timestamp option list" where
  "select_check_in_time rows userId d = map att_check_in_time (filter (has_key userId d) rows)"

definition select_check_out_time :: "attendance_row list \<Rightarrow> nat \<Rightarrow> date \<Rightarrow> timestamp option list" where
  "select_check_out_time rows userId d = map att_check_out_time (filter (has_key userId d) rows)"

definition checked_in_state :: system_state where
  "checked_in_state = snd (checkIn utc_0900 sample_state 1705308300000 2 ''Tom Wilson'')"

definition checked_out_state :: system_state where
  "checked_out_state = snd (checkOut checked_in_state 1705338000000 2)"

text \<open>
  A report of day 19737 computed at 08:00 and cached; read again at 08:50; then employee 2
  checks in at 08:55.
\<close>

definition report_at_0800_state :: system_state where
  "report_at_0800_state = snd (getAttendanceReport sample_state 1705305600000 19737 19737)"

definition report_at_0850_state :: system_state where
  "report_at_0850_state = snd (getAttendanceReport report_at_0800_state 1705308600000 19737 19737)"

definition check_in_at_0855_state :: system_state where
  "check_in_at_0855_state =
     snd (checkIn utc_0900 report_at_0850_state 1705308900000 2 ''Tom Wilson'')"

definition clock_time :: "env \<Rightarrow> int \<Rightarrow> int \<Rightarrow> int \<Rightarrow> int \<Rightarrow> timestamp" where
  "clock_time cfg d h m sec = localDateTime cfg d h m + sec * 1000"

section \<open>Lateness\<close>

lemma isLate_timeOfDay:
  "isLate cfg t \<longleftrightarrow> timeOfDay cfg t > (startHour cfg * 60 + startMinute cfg) * 60000"
proof -
  have "t + tzOffset cfg = (t + tzOffset cfg) div 86400000 * 86400000 + (t + tzOffset cfg) mod 86400000"
    by simp
  then show ?thesis
    unfolding isLate_def setHours_def localDateTime_def toDateString_def timeOfDay_def Let_def
    by linarith
qed

lemma calculateMinutesLate_timeOfDay:
  "calculateMinutesLate cfg t =
     (timeOfDay cfg t
        - ((startHour cfg * 60 + startMinute cfg) * 60000 + startSecond cfg * 1000)) div 60000"
proof -
  have "t + tzOffset cfg = (t + tzOffset cfg) div 86400000 * 86400000 + (t + tzOffset cfg) mod 86400000"
    by simp
  then have "t - (localDateTime cfg (toDateString cfg t) (startHour cfg) (startMinute cfg)
                   + startSecond cfg * 1000)
      = timeOfDay cfg t
         - ((startHour cfg * 60 + startMinute cfg) * 60000 + startSecond cfg * 1000)"
    unfolding localDateTime_def toDateString_def timeOfDay_def by linarith
  then show ?thesis
    by (simp add: calculateMinutesLate_def Let_def)
qed

lemma timeOfDay_clock_time:
  assumes "0 \<le> (h * 60 + m) * 60000 + sec * 1000" "(h * 60 + m) * 60000 + sec * 1000 < 86400000"
  shows "timeOfDay cfg (clock_time cfg d h m sec) = (h * 60 + m) * 60000 + sec * 1000"
proof -
  have "clock_time cfg d h m sec + tzOffset cfg = ((h * 60 + m) * 60000 + sec * 1000) + d * 86400000"
    by (simp add: clock_time_def localDateTime_def)
  then have "timeOfDay cfg (clock_time cfg d h m sec) = ((h * 60 + m) * 60000 + sec * 1000) mod 86400000"
    unfolding timeOfDay_def by (metis mod_mult_self1)
  with assms show ?thesis by simp
qed

lemma late_minutes_nonneg:
  "startSecond cfg = 0 \<Longrightarrow> isLate cfg t \<Longrightarrow> 0 \<le> calculateMinutesLate cfg t"
  by (simp add: isLate_timeOfDay calculateMinutesLate_timeOfDay pos_imp_zdiv_nonneg_iff)

lemma not_late_minutes:
  assumes "startSecond cfg = 0" "\<not> isLate cfg t"
  shows "calculateMinutesLate cfg t \<le> 0"
    and "calculateMinutesLate cfg t = 0
          \<longleftrightarrow> timeOfDay cfg t = (startHour cfg * 60 + startMinute cfg) * 60000"
proof -
  let ?x = "timeOfDay cfg t - (startHour cfg * 60 + startMinute cfg) * 60000"
  have c: "calculateMinutesLate cfg t = ?x div 60000"
    by (simp add: calculateMinutesLate_timeOfDay assms(1))
  from assms(2) have x: "?x \<le> 0"
    by (simp add: isLate_timeOfDay)
  have "?x div 60000 \<le> 0 div 60000"
    using x by (intro zdiv_mono1) simp_all
  then show "calculateMinutesLate cfg t \<le> 0"
    by (simp add: c)
  have "?x div 60000 = 0 \<longleftrightarrow> ?x = 0"
  proof
    assume "?x div 60000 = 0"
    then have "0 \<le> ?x" by (simp add: div_eq_0_iff split: if_splits)
    with x show "?x = 0" by simp
  qed simp
  then show "calculateMinutesLate cfg t = 0
          \<longleftrightarrow> timeOfDay cfg t = (startHour cfg * 60 + startMinute cfg) * 60000"
    by (simp add: c)
qed

text \<open>
  C4 (as amended). With the start of work at 09:00, a check-in is late exactly when the
  local time of day is strictly after 09:00, and the minutes late are the floor of the
  distance to 09:00 of that day in minutes, with no clamp: the number is at least 0
  whenever the check-in is late. At 09:00:00 the check-in is not late, at 09:00:01 it is
  late by 0 minutes, at 09:15:00 it is late by 15 minutes.
\<close>

theorem lateness_at_0900:
  "(isLate (work_start_0900 tz) t \<longleftrightarrow> 9 * 3600000 < timeOfDay (work_start_0900 tz) t)
   \<and> calculateMinutesLate (work_start_0900 tz) t
       = (timeOfDay (work_start_0900 tz) t - 9 * 3600000) div 60000
   \<and> (isLate (work_start_0900 tz) t \<longrightarrow> 0 \<le> calculateMinutesLate (work_start_0900 tz) t)
   \<and> \<not> isLate (work_start_0900 tz) (clock_time (work_start_0900 tz) d 9 0 0)
   \<and> isLate (work_start_0900 tz) (clock_time (work_start_0900 tz) d 9 0 1)
   \<and> calculateMinutesLate (work_start_0900 tz) (clock_time (work_start_0900 tz) d 9 0 1) = 0
   \<and> isLate (work_start_0900 tz) (clock_time (work_start_0900 tz) d 9 15 0)
   \<and> calculateMinutesLate (work_start_0900 tz) (clock_time (work_start_0900 tz) d 9 15 0) = 15"
proof -
  let ?cfg = "work_start_0900 tz"
  have cfg: "startHour ?cfg = 9" "startMinute ?cfg = 0" "startSecond ?cfg = 0"
    by (simp_all add: work_start_0900_def)
  have a: "isLate ?cfg t \<longleftrightarrow> 9 * 3600000 < timeOfDay ?cfg t" for t
    by (simp add: isLate_timeOfDay cfg)
  have b: "calculateMinutesLate ?cfg t = (timeOfDay ?cfg t - 9 * 3600000) div 60000" for t
    by (simp add: calculateMinutesLate_timeOfDay cfg)
  have c: "isLate ?cfg t \<longrightarrow> 0 \<le> calculateMinutesLate ?cfg t"
    by (simp add: late_minutes_nonneg [OF cfg(3)])
  have t0: "timeOfDay ?cfg (clock_time ?cfg d 9 0 0) = 32400000"
    using timeOfDay_clock_time [of 9 0 0 ?cfg d] by simp
  have t1: "timeOfDay ?cfg (clock_time ?cfg d 9 0 1) = 32401000"
    using timeOfDay_clock_time [of 9 0 1 ?cfg d] by simp
  have t15: "timeOfDay ?cfg (clock_time ?cfg d 9 15 0) = 33300000"
    using timeOfDay_clock_time [of 9 15 0 ?cfg d] by simp
  show ?thesis
    using a [of t] b [of t] c
    by (simp add: a b t0 t1 t15)
qed

theorem lateness_at_0900_witness:
  "isLate (work_start_0900 0) 1705310100000
   \<and> 0 \<le> calculateMinutesLate (work_start_0900 0) 1705310100000
   \<and> calculateMinutesLate (work_start_0900 0) 1705310100000 = 15"
proof -
  have late: "isLate (work_start_0900 0) 1705310100000"
    by (simp add: isLate_def setHours_def localDateTime_def toDateString_def work_start_0900_def)
  have "calculateMinutesLate (work_start_0900 0) 1705310100000 = 15"
    by (simp add: calculateMinutesLate_def localDateTime_def toDateString_def work_start_0900_def)
  with late lateness_at_0900 [of 0 1705310100000 0] show ?thesis
    by simp
qed

text \<open>
  C4 as stated fails on the clamp: at 08:00:00 the minutes late are \<open>-60\<close>, where the
  clamped value is 0.
\<close>

theorem minutes_late_clamp_counterexample:
  "calculateMinutesLate utc_0900 (clock_time utc_0900 19737 8 0 0) = - 60
   \<and> calculateMinutesLate utc_0900 (clock_time utc_0900 19737 8 0 0)
       \<noteq> max 0 ((clock_time utc_0900 19737 8 0 0
                    - localDateTime utc_0900 (toDateString utc_0900 (clock_time utc_0900 19737 8 0 0)) 9 0)
                  div 60000)"
  by (simp add: calculateMinutesLate_def localDateTime_def toDateString_def clock_time_def
      utc_0900_def work_start_0900_def)

section \<open>Evaluating the service on sample data\<close>

lemmas eval_defs =
  checkIn_def recordCheckIn_def execute_insert_def setEx_checkin_def sAdd_in_office_def
  queueLateNotification_def hasCheckedInToday_def redis_get_def redis_setEx_def
  insert_on_duplicate_key_update_def has_key_def sample_state_def sample_employees_def
  utc_0900_def work_start_0900_def clock_time_def localDateTime_def toDateString_def
  getTodayDate_def isLate_def setHours_def calculateMinutesLate_def Let_def

section \<open>Late-arrival notifications\<close>

lemma checkIn_queue:
  assumes "checkIn cfg s now userId userName = (res, s')"
  shows "emailQueue s' = emailQueue s @
           (if \<not> isl res \<and> isLate cfg now
            then [\<lparr>job_employeeId = userId, job_employeeName = userName,
                   job_checkInTime = now, job_minutesLate = calculateMinutesLate cfg now\<rparr>]
            else [])"
  using assms
  by (auto simp: checkIn_def recordCheckIn_def execute_insert_def setEx_checkin_def
      sAdd_in_office_def queueLateNotification_def Let_def
      split: if_splits prod.splits sum.splits)

text \<open>
  C9 (as amended). With \<open>WORK_START_TIME\<close> written as hour and minute, a successful
  check-in appends a job to the queue exactly when the check-in time is late, the job
  carries the minutes that \<open>calculateMinutesLate\<close> computes, and under \<open>isLate\<close> that
  number is at least 0; so a queue whose jobs all have non-negative \<open>minutesLate\<close>
  keeps that property. \<open>calculateMinutesLate\<close> itself has no clamp: for a time that is
  not late it is at most 0, and it is 0 only at the start of work itself.
\<close>

theorem late_jobs_nonneg:
  assumes "hour_minute_form cfg"
    and "checkIn cfg s now userId userName = (Inr resp, s')"
  shows "emailQueue s' = emailQueue s @
           (if isLate cfg now
            then [\<lparr>job_employeeId = userId, job_employeeName = userName,
                   job_checkInTime = now, job_minutesLate = calculateMinutesLate cfg now\<rparr>]
            else [])
         \<and> (isLate cfg now \<longrightarrow> 0 \<le> calculateMinutesLate cfg now)
         \<and> resp_isLate resp = isLate cfg now
         \<and> ((\<forall>j \<in> set (emailQueue s). 0 \<le> job_minutesLate j)
              \<longrightarrow> (\<forall>j \<in> set (emailQueue s'). 0 \<le> job_minutesLate j))
         \<and> (\<not> isLate cfg t \<longrightarrow>
               calculateMinutesLate cfg t \<le> 0
               \<and> (calculateMinutesLate cfg t = 0
                    \<longleftrightarrow> timeOfDay cfg t = (startHour cfg * 60 + startMinute cfg) * 60000))"
proof -
  from assms(1) have z: "startSecond cfg = 0"
    by (simp add: hour_minute_form_def)
  have q: "emailQueue s' = emailQueue s @
           (if isLate cfg now
            then [\<lparr>job_employeeId = userId, job_employeeName = userName,
                   job_checkInTime = now, job_minutesLate = calculateMinutesLate cfg now\<rparr>]
            else [])"
    using checkIn_queue [OF assms(2)] by simp
  have n: "isLate cfg now \<longrightarrow> 0 \<le> calculateMinutesLate cfg now"
    by (simp add: late_minutes_nonneg [OF z])
  have r: "resp_isLate resp = isLate cfg now"
    using assms(2)
    by (auto simp: checkIn_def Let_def split: if_splits prod.splits sum.splits)
  from q n have i: "(\<forall>j \<in> set (emailQueue s). 0 \<le> job_minutesLate j)
              \<longrightarrow> (\<forall>j \<in> set (emailQueue s'). 0 \<le> job_minutesLate j)"
    by auto
  have e: "\<not> isLate cfg t \<longrightarrow>
               calculateMinutesLate cfg t \<le> 0
               \<and> (calculateMinutesLate cfg t = 0
                    \<longleftrightarrow> timeOfDay cfg t = (startHour cfg * 60 + startMinute cfg) * 60000)"
    using not_late_minutes [OF z] by blast
  from q n r i e show ?thesis by blast
qed

theorem late_jobs_nonneg_witness:
  "emailQueue (snd (checkIn utc_0900 sample_state 1705310100000 2 ''Tom Wilson''))
     = [\<lparr>job_employeeId = 2, job_employeeName = ''Tom Wilson'',
         job_checkInTime = 1705310100000, job_minutesLate = 15\<rparr>]"
proof -
  have h: "hour_minute_form utc_0900"
    by (simp add: hour_minute_form_def utc_0900_def work_start_0900_def)
  have r: "checkIn utc_0900 sample_state 1705310100000 2 ''Tom Wilson'' =
     (Inr \<lparr>resp_message = ''Checked in successfully'', resp_checkInTime = 1705310100000,
           resp_isLate = True\<rparr>,
      snd (checkIn utc_0900 sample_state 1705310100000 2 ''Tom Wilson''))"
    by (simp add: eval_defs)
  have l: "isLate utc_0900 1705310100000"
    by (simp add: eval_defs)
  have m: "calculateMinutesLate utc_0900 1705310100000 = 15"
    by (simp add: eval_defs)
  have e: "emailQueue sample_state = []"
    by (simp add: sample_state_def)
  from late_jobs_nonneg [OF h r] l m e show ?thesis by simp
qed

text \<open>
  C9 as stated fails. With \<open>WORK_START_TIME=09:00:30\<close> a check-in at 09:00:15 is late
  for \<open>isLate\<close>, which compares with 09:00:00, and 15 seconds early for
  \<open>calculateMinutesLate\<close>: the check-in succeeds and queues a job with
  \<open>minutesLate = -1\<close>. And at 09:00:00 with the start of work at 09:00 the check-in is
  not late and \<open>calculateMinutesLate\<close> returns 0, not a negative number.
\<close>

theorem late_job_negative_counterexample:
  "fst (checkIn utc_090030 sample_state 1705309215000 2 ''Tom Wilson'') =
     Inr \<lparr>resp_message = ''Checked in successfully'', resp_checkInTime = 1705309215000,
          resp_isLate = True\<rparr>
   \<and> emailQueue (snd (checkIn utc_090030 sample_state 1705309215000 2 ''Tom Wilson''))
     = [\<lparr>job_employeeId = 2, job_employeeName = ''Tom Wilson'',
         job_checkInTime = 1705309215000, job_minutesLate = - 1\<rparr>]
   \<and> \<not> isLate utc_0900 1705309200000
   \<and> calculateMinutesLate utc_0900 1705309200000 = 0"
  by (simp add: utc_090030_def eval_defs)

section \<open>The insert of a check-in\<close>

lemma upsert_row:
  "\<exists>r \<in> set (insert_on_duplicate_key_update rows userId d t).
      has_key userId d r \<and> att_check_in_time r = Some t"
proof (cases "\<exists>r \<in> set rows. has_key userId d r")
  case True
  then obtain r0 where r0: "r0 \<in> set rows" "has_key userId d r0" by blast
  let ?f = "\<lambda>r. if has_key userId d r then r\<lparr>att_check_in_time := Some t\<rparr> else r"
  have "?f r0 \<in> set (map ?f rows)" using r0(1) by (simp only: set_map) (rule imageI)
  moreover have "has_key userId d (?f r0) \<and> att_check_in_time (?f r0) = Some t"
    using r0(2) by (simp add: has_key_def)
  ultimately show ?thesis
    using True by (auto simp only: insert_on_duplicate_key_update_def if_True)
next
  case False
  then have "insert_on_duplicate_key_update rows userId d t =
      rows @ [\<lparr>att_employee_id = userId, att_date = d,
                att_check_in_time = Some t, att_check_out_time = None\<rparr>]"
    by (simp only: insert_on_duplicate_key_update_def if_False)
  then show ?thesis
    by (simp add: has_key_def)
qed

lemma upsert_all_rows:
  "\<forall>r \<in> set (insert_on_duplicate_key_update rows userId d t).
      has_key userId d r \<longrightarrow> att_check_in_time r = Some t"
  by (auto simp: insert_on_duplicate_key_update_def has_key_def)

section \<open>A check-in whose notification cannot be queued\<close>

text \<open>
  C3 (as amended). \<open>checkIn\<close> awaits \<open>queueLateNotification\<close> with nothing that
  catches its rejection. For a late check-in that passes the duplicate check, of an
  employee in the employees table, with the queue refusing the job, the call ends with
  the rejection of the queue; the attendance row, the \<open>checkin:\<close> key and the presence
  of the employee, written before, stay, and no job is queued.
\<close>

theorem checkIn_queue_down:
  assumes "\<not> hasCheckedInToday s now userId (getTodayDate now)"
    and "userId \<in> emp_id ` set (employees s)"
    and "isLate cfg now"
    and "\<not> queue_available s"
  shows "fst (checkIn cfg s now userId userName) = Inl QueueAddFailed
    \<and> (\<exists>r \<in> set (attendance (snd (checkIn cfg s now userId userName))).
          has_key userId (getTodayDate now) r \<and> att_check_in_time r = Some now)
    \<and> userId \<in> employees_in_office (snd (checkIn cfg s now userId userName))
    \<and> hasCheckedInToday (snd (checkIn cfg s now userId userName)) now userId (getTodayDate now)
    \<and> emailQueue (snd (checkIn cfg s now userId userName)) = emailQueue s"
  using assms upsert_row [of "attendance s" userId "getTodayDate now" now]
  by (simp add: checkIn_def recordCheckIn_def execute_insert_def setEx_checkin_def
      sAdd_in_office_def queueLateNotification_def Let_def hasCheckedInToday_def
      redis_get_def redis_setEx_def)

theorem checkIn_queue_down_witness:
  "fst (checkIn utc_0900 queue_down_state 1705310100000 2 ''Tom Wilson'') = Inl QueueAddFailed
   \<and> 2 \<in> employees_in_office (snd (checkIn utc_0900 queue_down_state 1705310100000 2 ''Tom Wilson''))"
proof -
  have a: "\<not> hasCheckedInToday queue_down_state 1705310100000 2 (getTodayDate 1705310100000)"
    by (simp add: queue_down_state_def eval_defs)
  have b: "2 \<in> emp_id ` set (employees queue_down_state)"
    by (simp add: queue_down_state_def eval_defs)
  have c: "isLate utc_0900 1705310100000"
    by (simp add: eval_defs)
  have d: "\<not> queue_available queue_down_state"
    by (simp add: queue_down_state_def eval_defs)
  from checkIn_queue_down [OF a b c d, of "''Tom Wilson''"] show ?thesis by simp
qed

text \<open>
  C3 as stated fails: a late check-in at 09:15 with the queue down does not return
  success.
\<close>

theorem checkIn_queue_down_counterexample:
  "isLate utc_0900 1705310100000
   \<and> \<not> queue_available queue_down_state
   \<and> fst (checkIn utc_0900 queue_down_state 1705310100000 2 ''Tom Wilson'') = Inl QueueAddFailed"
  by (simp add: queue_down_state_def eval_defs)

section \<open>Check-out without a check-in\<close>

lemma update_check_out_no_row:
  assumes "\<not> (\<exists>r \<in> set rows. has_key userId d r)"
  shows "update_check_out rows userId d t = (0, rows)"
proof -
  from assms have f: "filter (has_key userId d) rows = []"
    by (simp add: filter_empty_conv)
  from assms have "map (\<lambda>r. if has_key userId d r
                then r\<lparr>att_check_out_time := Some t\<rparr> else r) rows = rows"
    by (simp add: map_idI)
  with f show ?thesis by (simp add: update_check_out_def)
qed

text \<open>
  C5. When the attendance table has no row for the employee and today, \<open>checkOut\<close>
  ends with \<open>"No check-in record found for today"\<close>, and the attendance and employees
  tables, the presence set, the \<open>checkin:\<close> and \<open>report:\<close> keys and the queue are as
  before the call.
\<close>

theorem checkOut_no_record:
  assumes "\<not> (\<exists>r \<in> set (attendance s). has_key userId (getTodayDate now) r)"
  shows "fst (checkOut s now userId) = Inl NoCheckInRecordFound
    \<and> attendance (snd (checkOut s now userId)) = attendance s
    \<and> employees (snd (checkOut s now userId)) = employees s
    \<and> employees_in_office (snd (checkOut s now userId)) = employees_in_office s
    \<and> checkin_keys (snd (checkOut s now userId)) = checkin_keys s
    \<and> report_keys (snd (checkOut s now userId)) = report_keys s
    \<and> emailQueue (snd (checkOut s now userId)) = emailQueue s
    \<and> queue_available (snd (checkOut s now userId)) = queue_available s"
  using update_check_out_no_row [OF assms]
  by (simp add: checkOut_def recordCheckOut_def Let_def)

theorem checkOut_no_record_witness:
  "fst (checkOut sample_state 1705341600000 2) = Inl NoCheckInRecordFound
   \<and> attendance (snd (checkOut sample_state 1705341600000 2)) = []
   \<and> employees_in_office (snd (checkOut sample_state 1705341600000 2)) = {}"
proof -
  have a: "\<not> (\<exists>r \<in> set (attendance sample_state). has_key 2 (getTodayDate 1705341600000) r)"
    by (simp add: sample_state_def)
  from checkOut_no_record [OF a] show ?thesis
    by (simp add: sample_state_def)
qed

section \<open>Writing over a stored time\<close>

lemma has_key_check_in_update [simp]:
  "has_key userId d (r\<lparr>att_check_in_time := x\<rparr>) = has_key userId d r"
  by (simp add: has_key_def)

lemma has_key_check_out_update [simp]:
  "has_key userId d (r\<lparr>att_check_out_time := x\<rparr>) = has_key userId d r"
  by (simp add: has_key_def)

lemma filter_key_upsert:
  assumes "\<exists>r \<in> set rows. has_key userId d r"
  shows "filter (has_key userId d) (insert_on_duplicate_key_update rows userId d t)
       = map (\<lambda>r. r\<lparr>att_check_in_time := Some t\<rparr>) (filter (has_key userId d) rows)"
proof -
  have "filter (has_key userId d)
          (map (\<lambda>r. if has_key userId d r then r\<lparr>att_check_in_time := Some t\<rparr> else r) rows)
        = map (\<lambda>r. r\<lparr>att_check_in_time := Some t\<rparr>) (filter (has_key userId d) rows)"
    by (induction rows) simp_all
  with assms show ?thesis
    by (simp only: insert_on_duplicate_key_update_def if_True)
qed

lemma filter_key_update_check_out:
  "filter (has_key userId d) (snd (update_check_out rows userId d t))
       = map (\<lambda>r. r\<lparr>att_check_out_time := Some t\<rparr>) (filter (has_key userId d) rows)"
  unfolding update_check_out_def snd_conv
  by (induction rows) simp_all

text \<open>
  C2 (as amended). When the attendance table already holds a row for the key, of an
  employee in the employees table, \<open>recordCheckIn\<close> signals nothing and returns
  normally: the statement is an upsert, which writes the new time over the stored
  check-in time, leaves the check-out time as it is and adds no row.
\<close>

theorem recordCheckIn_overwrites:
  assumes "\<exists>r \<in> set (attendance s). has_key userId d r"
    and "userId \<in> emp_id ` set (employees s)"
  shows "fst (recordCheckIn s now userId d t) = Inr ()
    \<and> select_check_in_time (attendance (snd (recordCheckIn s now userId d t))) userId d
        = map (\<lambda>_. Some t) (select_check_in_time (attendance s) userId d)
    \<and> select_check_out_time (attendance (snd (recordCheckIn s now userId d t))) userId d
        = select_check_out_time (attendance s) userId d
    \<and> length (attendance (snd (recordCheckIn s now userId d t))) = length (attendance s)"
proof -
  have a: "attendance (snd (recordCheckIn s now userId d t))
      = insert_on_duplicate_key_update (attendance s) userId d t"
    and r: "fst (recordCheckIn s now userId d t) = Inr ()"
    using assms(2)
    by (simp_all add: recordCheckIn_def execute_insert_def setEx_checkin_def sAdd_in_office_def Let_def)
  have l: "length (insert_on_duplicate_key_update (attendance s) userId d t) = length (attendance s)"
    using assms(1) by (simp only: insert_on_duplicate_key_update_def if_True length_map)
  show ?thesis
    unfolding a select_check_in_time_def select_check_out_time_def
    using r l by (simp add: filter_key_upsert [OF assms(1)] comp_def)
qed

theorem recordCheckIn_overwrites_witness:
  "fst (recordCheckIn seeded_state 1705310100000 2 19737 1705310100000) = Inr ()
   \<and> select_check_in_time
        (attendance (snd (recordCheckIn seeded_state 1705310100000 2 19737 1705310100000))) 2 19737
       = [Some 1705310100000]
   \<and> length (attendance (snd (recordCheckIn seeded_state 1705310100000 2 19737 1705310100000))) = 1"
proof -
  have a: "\<exists>r \<in> set (attendance seeded_state). has_key 2 19737 r"
    by (simp add: seeded_state_def sample_state_def has_key_def)
  have b: "2 \<in> emp_id ` set (employees seeded_state)"
    by (simp add: seeded_state_def sample_state_def sample_employees_def)
  have c: "select_check_in_time (attendance seeded_state) 2 19737 = [Some 1705308300000]"
    by (simp add: seeded_state_def sample_state_def has_key_def select_check_in_time_def)
  have d: "length (attendance seeded_state) = 1"
    by (simp add: seeded_state_def sample_state_def)
  from recordCheckIn_overwrites [OF a b, of 1705310100000 1705310100000] c d
  show ?thesis by simp
qed

text \<open>
  C2 as stated fails: with employee 2 checked in at 08:45 by the seed data,
  \<open>recordCheckIn\<close> at 09:15 returns normally and the stored time becomes 09:15.
\<close>

theorem recordCheckIn_conflict_counterexample:
  "select_check_in_time (attendance seeded_state) 2 19737 = [Some 1705308300000]
   \<and> fst (recordCheckIn seeded_state 1705310100000 2 19737 1705310100000) = Inr ()
   \<and> select_check_in_time
        (attendance (snd (recordCheckIn seeded_state 1705310100000 2 19737 1705310100000))) 2 19737
       = [Some 1705310100000]"
  by (simp add: seeded_state_def select_check_in_time_def eval_defs)

section \<open>A second check-out\<close>

lemma recordCheckOut_success_row:
  assumes "recordCheckOut s userId d t = (Inr u, s1)"
  shows "\<exists>r \<in> set (attendance s1). has_key userId d r"
proof -
  from assms have n: "filter (has_key userId d) (attendance s) \<noteq> []"
    and a: "attendance s1 = snd (update_check_out (attendance s) userId d t)"
    by (auto simp: recordCheckOut_def update_check_out_def Let_def split: if_splits)
  have "filter (has_key userId d) (attendance s1) \<noteq> []"
    unfolding a filter_key_update_check_out using n by simp
  then show ?thesis
    by (simp add: filter_empty_conv)
qed

lemma checkOut_existing_row:
  assumes "\<exists>r \<in> set (attendance s). has_key userId (getTodayDate now) r"
  shows "fst (checkOut s now userId)
      = Inr \<lparr>out_message = ''Checked out successfully'', out_checkOutTime = now\<rparr>"
    and "select_check_out_time (attendance (snd (checkOut s now userId))) userId (getTodayDate now)
      = map (\<lambda>_. Some now) (select_check_out_time (attendance s) userId (getTodayDate now))"
proof -
  from assms have n: "filter (has_key userId (getTodayDate now)) (attendance s) \<noteq> []"
    by (simp add: filter_empty_conv)
  then show "fst (checkOut s now userId)
      = Inr \<lparr>out_message = ''Checked out successfully'', out_checkOutTime = now\<rparr>"
    by (simp add: checkOut_def recordCheckOut_def update_check_out_def Let_def)
  have "attendance (snd (checkOut s now userId))
      = snd (update_check_out (attendance s) userId (getTodayDate now) now)"
    using n by (simp add: checkOut_def recordCheckOut_def update_check_out_def Let_def)
  then show "select_check_out_time (attendance (snd (checkOut s now userId))) userId (getTodayDate now)
      = map (\<lambda>_. Some now) (select_check_out_time (attendance s) userId (getTodayDate now))"
    by (simp add: select_check_out_time_def filter_key_update_check_out comp_def)
qed

text \<open>
  C6 (as amended). The update of the check-out time asks only for a row of the
  employee and the day. So once a check-out has succeeded, a further check-out on the
  same day succeeds too, and writes its own time over the stored check-out time.
\<close>

theorem checkOut_twice:
  assumes "checkOut s t1 userId = (Inr r1, s1)"
    and "getTodayDate t2 = getTodayDate t1"
  shows "fst (checkOut s1 t2 userId)
      = Inr \<lparr>out_message = ''Checked out successfully'', out_checkOutTime = t2\<rparr>
    \<and> select_check_out_time (attendance s1) userId (getTodayDate t1) \<noteq> []
    \<and> select_check_out_time (attendance (snd (checkOut s1 t2 userId))) userId (getTodayDate t1)
        = map (\<lambda>_. Some t2) (select_check_out_time (attendance s1) userId (getTodayDate t1))"
proof -
  from assms(1) obtain u where "recordCheckOut s userId (getTodayDate t1) t1 = (Inr u, s1)"
    by (auto simp: checkOut_def Let_def split: prod.splits sum.splits)
  then have e: "\<exists>r \<in> set (attendance s1). has_key userId (getTodayDate t2) r"
    using recordCheckOut_success_row assms(2) by metis
  then have "select_check_out_time (attendance s1) userId (getTodayDate t1) \<noteq> []"
    by (simp add: select_check_out_time_def filter_empty_conv assms(2))
  with checkOut_existing_row [OF e] assms(2) show ?thesis by simp
qed

lemma checked_in_state_attendance:
  "attendance checked_in_state =
     [\<lparr>att_employee_id = 2, att_date = 19737,
       att_check_in_time = Some 1705308300000, att_check_out_time = None\<rparr>]"
  by (simp add: checked_in_state_def eval_defs)

lemma first_checkOut:
  "fst (checkOut checked_in_state 1705338000000 2)
     = Inr \<lparr>out_message = ''Checked out successfully'', out_checkOutTime = 1705338000000\<rparr>"
  "attendance checked_out_state =
     [\<lparr>att_employee_id = 2, att_date = 19737,
       att_check_in_time = Some 1705308300000, att_check_out_time = Some 1705338000000\<rparr>]"
  by (simp_all add: checked_out_state_def checkOut_def recordCheckOut_def update_check_out_def
      has_key_def getTodayDate_def Let_def checked_in_state_attendance)

lemma second_checkOut:
  "fst (checkOut checked_out_state 1705341600000 2)
     = Inr \<lparr>out_message = ''Checked out successfully'', out_checkOutTime = 1705341600000\<rparr>"
  "attendance (snd (checkOut checked_out_state 1705341600000 2)) =
     [\<lparr>att_employee_id = 2, att_date = 19737,
       att_check_in_time = Some 1705308300000, att_check_out_time = Some 1705341600000\<rparr>]"
  by (simp_all add: checkOut_def recordCheckOut_def update_check_out_def
      has_key_def getTodayDate_def Let_def first_checkOut(2))

text \<open>
  C6 as stated fails: employee 2 checks in at 08:45, checks out at 17:00 and again at
  18:00; the second check-out is accepted and the stored check-out time becomes 18:00.
\<close>

theorem checkOut_twice_counterexample:
  "fst (checkOut checked_in_state 1705338000000 2)
     = Inr \<lparr>out_message = ''Checked out successfully'', out_checkOutTime = 1705338000000\<rparr>
   \<and> select_check_out_time (attendance checked_out_state) 2 19737 = [Some 1705338000000]
   \<and> fst (checkOut checked_out_state 1705341600000 2)
     = Inr \<lparr>out_message = ''Checked out successfully'', out_checkOutTime = 1705341600000\<rparr>
   \<and> select_check_out_time (attendance (snd (checkOut checked_out_state 1705341600000 2))) 2 19737
     = [Some 1705341600000]"
  by (simp add: first_checkOut second_checkOut select_check_out_time_def has_key_def)

theorem checkOut_twice_witness:
  "fst (checkOut checked_out_state 1705341600000 2)
     = Inr \<lparr>out_message = ''Checked out successfully'', out_checkOutTime = 1705341600000\<rparr>
   \<and> select_check_out_time (attendance (snd (checkOut checked_out_state 1705341600000 2))) 2 19737
     = [Some 1705341600000]"
proof -
  have a: "checkOut checked_in_state 1705338000000 2
     = (Inr \<lparr>out_message = ''Checked out successfully'', out_checkOutTime = 1705338000000\<rparr>,
        checked_out_state)"
    using first_checkOut(1) unfolding checked_out_state_def by (metis prod.collapse)
  have b: "getTodayDate 1705341600000 = getTodayDate 1705338000000"
    by (simp add: getTodayDate_def)
  have c: "getTodayDate 1705338000000 = 19737"
    by (simp add: getTodayDate_def)
  have d: "select_check_out_time (attendance checked_out_state) 2 19737 = [Some 1705338000000]"
    by (simp add: first_checkOut select_check_out_time_def has_key_def)
  from checkOut_twice [OF a b] c d show ?thesis by simp
qed

section \<open>Who is in the office\<close>

text \<open>
  C10. With an empty presence set the result is the empty list and the state, with its
  count of statements sent to the database, is as before. Otherwise the result is the rows
  of the employees table whose id is in the presence set; in both cases the ids returned
  are the members of the presence set that have a row, so a member without a row is left
  out.
\<close>

theorem current_employees:
  "(employees_in_office s = {} \<longrightarrow> getCurrentEmployeesInOffice s = ([], s))
   \<and> (employees_in_office s \<noteq> {} \<longrightarrow>
        fst (getCurrentEmployeesInOffice s)
          = filter (\<lambda>e. emp_id e \<in> employees_in_office s) (employees s))
   \<and> emp_id ` set (fst (getCurrentEmployeesInOffice s))
        = employees_in_office s \<inter> emp_id ` set (employees s)"
  by (auto simp: getCurrentEmployeesInOffice_def select_employees_in_def Let_def)

theorem current_employees_witness:
  "getCurrentEmployeesInOffice sample_state = ([], sample_state)
   \<and> fst (getCurrentEmployeesInOffice stale_presence_state)
       = [\<lparr>emp_id = 2, emp_name = ''Tom Wilson'', emp_department = ''IT''\<rparr>]"
proof -
  have a: "employees_in_office sample_state = {}"
    by (simp add: sample_state_def)
  have b: "employees_in_office stale_presence_state = {2, 99}"
    by (simp add: stale_presence_state_def sample_state_def)
  have c: "employees stale_presence_state = sample_employees"
    by (simp add: stale_presence_state_def sample_state_def)
  from current_employees [of sample_state] current_employees [of stale_presence_state] a b c
  show ?thesis by (simp add: sample_employees_def)
qed

section \<open>A report over a reversed range\<close>

lemma left_join_reversed:
  assumes "ed < sd"
  shows "left_join rows sd ed e = [null_row e]"
proof -
  from assms have "filter (\<lambda>a. emp_id e = att_employee_id a \<and> sd \<le> att_date a \<and> att_date a \<le> ed) rows = []"
    by (auto simp: filter_empty_conv)
  then show ?thesis by (simp add: left_join_def)
qed

lemma select_report_rows_reversed:
  assumes "ed < sd"
  shows "select_report_rows emps rows sd ed
       = sort_key (\<lambda>r. (r_name r, r_date r)) (map null_row emps)"
proof -
  have "concat (map (left_join rows sd ed) emps) = map null_row emps"
    by (induction emps) (simp_all add: left_join_reversed [OF assms])
  then show ?thesis by (simp add: select_report_rows_def)
qed

text \<open>
  C7 (as amended). Neither the controller nor the service compares the two dates. For
  every pair of dates with the end before the start, the request is answered with
  status 200 and the report of the service; when the report is not in the cache, it
  lists every employee once, with \<open>NULL\<close> date, check-in and check-out, ordered by
  name.
\<close>

theorem report_reversed_range:
  assumes "ed < sd"
  shows "fst (getReports s now (Some sd) (Some ed))
       = Response 200 (ReportBody (fst (getAttendanceReport s now sd ed)))
    \<and> (redis_get (report_keys s) now (sd, ed) = None \<longrightarrow>
         fst (getAttendanceReport s now sd ed)
           = \<lparr>startDate = sd, endDate = ed,
              records = sort_key (\<lambda>r. (r_name r, r_date r)) (map null_row (employees s))\<rparr>)"
  by (simp add: getReports_def getAttendanceReport_def Let_def
      select_report_rows_reversed [OF assms] split: prod.splits option.splits)

lemma sample_null_rows:
  "sort_key (\<lambda>r. (r_name r, r_date r)) (map null_row sample_employees) =
     [\<lparr>r_id = 3, r_name = ''Alice Smith'', r_department = ''IT'',
       r_date = None, r_check_in_time = None, r_check_out_time = None\<rparr>,
      \<lparr>r_id = 1, r_name = ''Sarah Johnson'', r_department = ''Management'',
       r_date = None, r_check_in_time = None, r_check_out_time = None\<rparr>,
      \<lparr>r_id = 2, r_name = ''Tom Wilson'', r_department = ''IT'',
       r_date = None, r_check_in_time = None, r_check_out_time = None\<rparr>]"
  by (simp add: sample_employees_def null_row_def)

theorem report_reversed_range_witness:
  "fst (getReports sample_state 1705305600000 (Some 19740) (Some 19737))
     = Response 200 (ReportBody
        \<lparr>startDate = 19740, endDate = 19737, records =
          [\<lparr>r_id = 3, r_name = ''Alice Smith'', r_department = ''IT'',
            r_date = None, r_check_in_time = None, r_check_out_time = None\<rparr>,
           \<lparr>r_id = 1, r_name = ''Sarah Johnson'', r_department = ''Management'',
            r_date = None, r_check_in_time = None, r_check_out_time = None\<rparr>,
           \<lparr>r_id = 2, r_name = ''Tom Wilson'', r_department = ''IT'',
            r_date = None, r_check_in_time = None, r_check_out_time = None\<rparr>]\<rparr>)"
proof -
  have a: "(19737::int) < 19740" by simp
  have b: "redis_get (report_keys sample_state) 1705305600000 (19740, 19737) = None"
    by (simp add: redis_get_def sample_state_def)
  have c: "employees sample_state = sample_employees"
    by (simp add: sample_state_def)
  from report_reversed_range [OF a, of sample_state 1705305600000] b c sample_null_rows
  show ?thesis by simp
qed

text \<open>
  C7 as stated fails: the report from day 19740 to day 19737 is answered with status
  200 and three rows.
\<close>

theorem report_reversed_range_counterexample:
  "(19737::int) < 19740
   \<and> fst (getReports sample_state 1705305600000 (Some 19740) (Some 19737))
     = Response 200 (ReportBody
        \<lparr>startDate = 19740, endDate = 19737, records =
          [\<lparr>r_id = 3, r_name = ''Alice Smith'', r_department = ''IT'',
            r_date = None, r_check_in_time = None, r_check_out_time = None\<rparr>,
           \<lparr>r_id = 1, r_name = ''Sarah Johnson'', r_department = ''Management'',
            r_date = None, r_check_in_time = None, r_check_out_time = None\<rparr>,
           \<lparr>r_id = 2, r_name = ''Tom Wilson'', r_department = ''IT'',
            r_date = None, r_check_in_time = None, r_check_out_time = None\<rparr>]\<rparr>)"
proof -
  have "select_report_rows sample_employees [] 19740 19737
      = sort_key (\<lambda>r. (r_name r, r_date r)) (map null_row sample_employees)"
    by (simp add: select_report_rows_def left_join_def sample_employees_def)
  then show ?thesis
    by (simp add: getReports_def getAttendanceReport_def redis_get_def sample_state_def
        Let_def sample_null_rows)
qed

section \<open>The cached report\<close>

lemma checkIn_keeps_reports:
  assumes "checkIn cfg s now userId userName = (res, s')"
  shows "report_keys s' = report_keys s" and "employees s' = employees s"
  using assms
  by (auto simp: checkIn_def recordCheckIn_def execute_insert_def setEx_checkin_def
      sAdd_in_office_def queueLateNotification_def Let_def
      split: if_splits prod.splits sum.splits)

lemma checkIn_success_row:
  assumes "checkIn cfg s now userId userName = (Inr resp, s')"
  shows "userId \<in> emp_id ` set (employees s)"
    and "attendance s' = insert_on_duplicate_key_update (attendance s) userId (getTodayDate now) now"
  using assms
  by (auto simp: checkIn_def recordCheckIn_def execute_insert_def setEx_checkin_def
      sAdd_in_office_def queueLateNotification_def Let_def
      split: if_splits prod.splits sum.splits)

lemma joined_row_in_report:
  assumes "e \<in> set emps" "a \<in> set rows" "emp_id e = att_employee_id a"
    "sd \<le> att_date a" "att_date a \<le> ed"
  shows "joined_row e a \<in> set (select_report_rows emps rows sd ed)"
proof -
  let ?m = "filter (\<lambda>a. emp_id e = att_employee_id a \<and> sd \<le> att_date a \<and> att_date a \<le> ed) rows"
  from assms have m: "a \<in> set ?m" by simp
  then have "?m \<noteq> []" by (metis empty_iff empty_set)
  then have "left_join rows sd ed e = map (joined_row e) ?m"
    by (simp add: left_join_def)
  with m have "joined_row e a \<in> set (left_join rows sd ed e)"
    by (simp only: set_map) (rule imageI)
  with assms(1) show ?thesis
    by (auto simp: select_report_rows_def)
qed

lemma report_miss:
  assumes "redis_get (report_keys s) now (sd, ed) = None"
  shows "getAttendanceReport s now sd ed =
    (\<lparr>startDate = sd, endDate = ed, records = select_report_rows (employees s) (attendance s) sd ed\<rparr>,
     s\<lparr>db_statements := db_statements s + 1,
       report_keys := redis_setEx (report_keys s) now (sd, ed) 3600
          \<lparr>startDate = sd, endDate = ed,
           records = select_report_rows (employees s) (attendance s) sd ed\<rparr>\<rparr>)"
  using assms by (simp add: getAttendanceReport_def Let_def)

lemma report_hit:
  assumes "redis_get (report_keys s) now (sd, ed) = Some rep"
  shows "getAttendanceReport s now sd ed = (rep, s)"
  using assms by (simp add: getAttendanceReport_def)

text \<open>
  C8 (as amended). The hour of a cached report runs from the call that stored it. When
  a call of the report for a range finds nothing in the cache, and a check-in succeeds
  after it, then a call for the same range less than one hour after the first returns
  the payload of the first and changes nothing; a call later than that computes the report
  again from the tables, and its records hold the row of the new check-in when the day
  of the check-in lies in the range.
\<close>

theorem report_stale_until_expiry:
  assumes miss: "redis_get (report_keys s) t1 (d1, d2) = None"
    and ci: "checkIn cfg (snd (getAttendanceReport s t1 d1 d2)) tc userId userName = (Inr resp, s2)"
  shows "(t2 < t1 + 3600000 \<longrightarrow>
            getAttendanceReport s2 t2 d1 d2 = (fst (getAttendanceReport s t1 d1 d2), s2))
    \<and> (t1 + 3600000 < t3 \<longrightarrow>
          fst (getAttendanceReport s2 t3 d1 d2)
            = \<lparr>startDate = d1, endDate = d2,
               records = select_report_rows (employees s2) (attendance s2) d1 d2\<rparr>)
    \<and> (t1 + 3600000 < t3 \<and> d1 \<le> getTodayDate tc \<and> getTodayDate tc \<le> d2 \<longrightarrow>
          (\<exists>r \<in> set (records (fst (getAttendanceReport s2 t3 d1 d2))).
              r_id r = userId \<and> r_date r = Some (getTodayDate tc) \<and> r_check_in_time r = Some tc))"
proof -
  let ?rep = "\<lparr>startDate = d1, endDate = d2,
               records = select_report_rows (employees s) (attendance s) d1 d2\<rparr>"
  let ?s1 = "snd (getAttendanceReport s t1 d1 d2)"
  have r1: "fst (getAttendanceReport s t1 d1 d2) = ?rep"
    and k1: "report_keys ?s1 = redis_setEx (report_keys s) t1 (d1, d2) 3600 ?rep"
    by (simp_all add: report_miss [OF miss])
  have k2: "report_keys s2 = redis_setEx (report_keys s) t1 (d1, d2) 3600 ?rep"
    using checkIn_keeps_reports(1) [OF ci] k1 by simp
  have hit: "redis_get (report_keys s2) t2 (d1, d2) = Some ?rep" if "t2 < t1 + 3600000"
    using that by (simp add: k2 redis_get_def redis_setEx_def)
  have gone: "redis_get (report_keys s2) t3 (d1, d2) = None" if "t1 + 3600000 < t3"
    using that by (simp add: k2 redis_get_def redis_setEx_def)
  have a: "t2 < t1 + 3600000 \<longrightarrow>
            getAttendanceReport s2 t2 d1 d2 = (fst (getAttendanceReport s t1 d1 d2), s2)"
    using hit report_hit r1 by metis
  have b: "fst (getAttendanceReport s2 t3 d1 d2)
            = \<lparr>startDate = d1, endDate = d2,
               records = select_report_rows (employees s2) (attendance s2) d1 d2\<rparr>"
    if "t1 + 3600000 < t3"
    by (simp add: report_miss [OF gone [OF that]])
  have c: "\<exists>r \<in> set (select_report_rows (employees s2) (attendance s2) d1 d2).
              r_id r = userId \<and> r_date r = Some (getTodayDate tc) \<and> r_check_in_time r = Some tc"
    if "d1 \<le> getTodayDate tc" "getTodayDate tc \<le> d2"
  proof -
    from checkIn_success_row [OF ci] checkIn_keeps_reports(2) [OF ci]
    have "userId \<in> emp_id ` set (employees s2)"
      and att: "attendance s2 = insert_on_duplicate_key_update (attendance ?s1) userId (getTodayDate tc) tc"
      by simp_all
    then obtain e where e: "e \<in> set (employees s2)" "emp_id e = userId" by auto
    from upsert_row [of "attendance ?s1" userId "getTodayDate tc" tc] att
    obtain a where a: "a \<in> set (attendance s2)" "has_key userId (getTodayDate tc) a"
      "att_check_in_time a = Some tc" by auto
    from a(2) have k: "att_employee_id a = userId" "att_date a = getTodayDate tc"
      by (simp_all add: has_key_def)
    have "joined_row e a \<in> set (select_report_rows (employees s2) (attendance s2) d1 d2)"
      using joined_row_in_report [OF e(1) a(1)] e(2) k that by simp
    moreover have "r_id (joined_row e a) = userId \<and> r_date (joined_row e a) = Some (getTodayDate tc)
        \<and> r_check_in_time (joined_row e a) = Some tc"
      using e(2) k a(3) by (simp add: joined_row_def)
    ultimately show ?thesis by blast
  qed
  from a b c show ?thesis by simp
qed

lemma select_report_rows_no_attendance:
  "select_report_rows emps [] sd ed = sort_key (\<lambda>r. (r_name r, r_date r)) (map null_row emps)"
proof -
  have "concat (map (left_join [] sd ed) emps) = map null_row emps"
    by (induction emps) (simp_all add: left_join_def)
  then show ?thesis by (simp add: select_report_rows_def)
qed

lemma report_at_0800:
  "getAttendanceReport sample_state 1705305600000 19737 19737 =
     (\<lparr>startDate = 19737, endDate = 19737,
       records = sort_key (\<lambda>r. (r_name r, r_date r)) (map null_row sample_employees)\<rparr>,
      report_at_0800_state)"
  "report_keys report_at_0800_state =
     [(19737, 19737) \<mapsto>
        (\<lparr>startDate = 19737, endDate = 19737,
          records = sort_key (\<lambda>r. (r_name r, r_date r)) (map null_row sample_employees)\<rparr>,
         1705309200000)]"
  "employees report_at_0800_state = sample_employees"
  "attendance report_at_0800_state = []"
  "checkin_keys report_at_0800_state = Map.empty"
  "queue_available report_at_0800_state"
proof -
  have m: "redis_get (report_keys sample_state) 1705305600000 (19737, 19737) = None"
    by (simp add: redis_get_def sample_state_def)
  have e: "employees sample_state = sample_employees" "attendance sample_state = []"
    "report_keys sample_state = Map.empty" "checkin_keys sample_state = Map.empty"
    "queue_available sample_state"
    by (simp_all add: sample_state_def)
  note r = report_miss [OF m, unfolded e select_report_rows_no_attendance]
  show "getAttendanceReport sample_state 1705305600000 19737 19737 =
     (\<lparr>startDate = 19737, endDate = 19737,
       records = sort_key (\<lambda>r. (r_name r, r_date r)) (map null_row sample_employees)\<rparr>,
      report_at_0800_state)"
    unfolding report_at_0800_state_def by (simp add: r)
  show "report_keys report_at_0800_state =
     [(19737, 19737) \<mapsto>
        (\<lparr>startDate = 19737, endDate = 19737,
          records = sort_key (\<lambda>r. (r_name r, r_date r)) (map null_row sample_employees)\<rparr>,
         1705309200000)]"
    unfolding report_at_0800_state_def by (simp add: r redis_setEx_def)
  show "employees report_at_0800_state = sample_employees"
    "attendance report_at_0800_state = []"
    "checkin_keys report_at_0800_state = Map.empty"
    "queue_available report_at_0800_state"
    unfolding report_at_0800_state_def by (simp_all add: r e)
qed

lemma report_at_0850:
  "getAttendanceReport report_at_0800_state 1705308600000 19737 19737 =
     (\<lparr>startDate = 19737, endDate = 19737,
       records = sort_key (\<lambda>r. (r_name r, r_date r)) (map null_row sample_employees)\<rparr>,
      report_at_0800_state)"
  "report_at_0850_state = report_at_0800_state"
proof -
  show a: "getAttendanceReport report_at_0800_state 1705308600000 19737 19737 =
     (\<lparr>startDate = 19737, endDate = 19737,
       records = sort_key (\<lambda>r. (r_name r, r_date r)) (map null_row sample_employees)\<rparr>,
      report_at_0800_state)"
    by (rule report_hit) (simp add: redis_get_def report_at_0800(2))
  show "report_at_0850_state = report_at_0800_state"
    unfolding report_at_0850_state_def by (simp add: a)
qed

lemma check_in_at_0855:
  "checkIn utc_0900 report_at_0800_state 1705308900000 2 ''Tom Wilson'' =
     (Inr \<lparr>resp_message = ''Checked in successfully'', resp_checkInTime = 1705308900000,
           resp_isLate = False\<rparr>,
      check_in_at_0855_state)"
  "employees check_in_at_0855_state = sample_employees"
  "attendance check_in_at_0855_state =
     [\<lparr>att_employee_id = 2, att_date = 19737,
       att_check_in_time = Some 1705308900000, att_check_out_time = None\<rparr>]"
  "report_keys check_in_at_0855_state = report_keys report_at_0800_state"
proof -
  have f: "fst (checkIn utc_0900 report_at_0800_state 1705308900000 2 ''Tom Wilson'') =
     Inr \<lparr>resp_message = ''Checked in successfully'', resp_checkInTime = 1705308900000,
           resp_isLate = False\<rparr>"
    by (simp add: checkIn_def recordCheckIn_def execute_insert_def hasCheckedInToday_def
        redis_get_def report_at_0800 sample_employees_def utc_0900_def work_start_0900_def
        isLate_def setHours_def localDateTime_def toDateString_def getTodayDate_def Let_def)
  then show c: "checkIn utc_0900 report_at_0800_state 1705308900000 2 ''Tom Wilson'' =
     (Inr \<lparr>resp_message = ''Checked in successfully'', resp_checkInTime = 1705308900000,
           resp_isLate = False\<rparr>,
      check_in_at_0855_state)"
    unfolding check_in_at_0855_state_def report_at_0850(2) by (metis prod.collapse)
  show "employees check_in_at_0855_state = sample_employees"
    using checkIn_keeps_reports(2) [OF c] by (simp add: report_at_0800)
  show "attendance check_in_at_0855_state =
     [\<lparr>att_employee_id = 2, att_date = 19737,
       att_check_in_time = Some 1705308900000, att_check_out_time = None\<rparr>]"
    using checkIn_success_row(2) [OF c]
    by (simp add: report_at_0800 insert_on_duplicate_key_update_def getTodayDate_def)
  show "report_keys check_in_at_0855_state = report_keys report_at_0800_state"
    using checkIn_keeps_reports(1) [OF c] .
qed

lemma rows_after_check_in:
  "select_report_rows sample_employees
     [\<lparr>att_employee_id = 2, att_date = 19737,
       att_check_in_time = Some 1705308900000, att_check_out_time = None\<rparr>] 19737 19737 =
     [\<lparr>r_id = 3, r_name = ''Alice Smith'', r_department = ''IT'',
       r_date = None, r_check_in_time = None, r_check_out_time = None\<rparr>,
      \<lparr>r_id = 1, r_name = ''Sarah Johnson'', r_department = ''Management'',
       r_date = None, r_check_in_time = None, r_check_out_time = None\<rparr>,
      \<lparr>r_id = 2, r_name = ''Tom Wilson'', r_department = ''IT'',
       r_date = Some 19737, r_check_in_time = Some 1705308900000, r_check_out_time = None\<rparr>]"
  by (simp add: select_report_rows_def left_join_def sample_employees_def null_row_def
      joined_row_def)

lemma report_at_0905:
  "fst (getAttendanceReport check_in_at_0855_state 1705309500000 19737 19737) =
     \<lparr>startDate = 19737, endDate = 19737, records =
     [\<lparr>r_id = 3, r_name = ''Alice Smith'', r_department = ''IT'',
       r_date = None, r_check_in_time = None, r_check_out_time = None\<rparr>,
      \<lparr>r_id = 1, r_name = ''Sarah Johnson'', r_department = ''Management'',
       r_date = None, r_check_in_time = None, r_check_out_time = None\<rparr>,
      \<lparr>r_id = 2, r_name = ''Tom Wilson'', r_department = ''IT'',
       r_date = Some 19737, r_check_in_time = Some 1705308900000, r_check_out_time = None\<rparr>]\<rparr>"
proof -
  have "redis_get (report_keys check_in_at_0855_state) 1705309500000 (19737, 19737) = None"
    by (simp add: check_in_at_0855(4) report_at_0800(2) redis_get_def)
  from report_miss [OF this] show ?thesis
    by (simp add: check_in_at_0855 rows_after_check_in)
qed

text \<open>
  C8 as stated fails when the first of the two calls is itself served from the cache:
  the report stored at 08:00 is read at 08:50, employee 2 checks in at 08:55, and the
  call at 09:05, a quarter of an hour after the one at 08:50, finds the key expired and
  returns the new row.
\<close>

theorem report_within_ttl_counterexample:
  "fst (getAttendanceReport report_at_0800_state 1705308600000 19737 19737) =
     \<lparr>startDate = 19737, endDate = 19737, records =
     [\<lparr>r_id = 3, r_name = ''Alice Smith'', r_department = ''IT'',
       r_date = None, r_check_in_time = None, r_check_out_time = None\<rparr>,
      \<lparr>r_id = 1, r_name = ''Sarah Johnson'', r_department = ''Management'',
       r_date = None, r_check_in_time = None, r_check_out_time = None\<rparr>,
      \<lparr>r_id = 2, r_name = ''Tom Wilson'', r_department = ''IT'',
       r_date = None, r_check_in_time = None, r_check_out_time = None\<rparr>]\<rparr>
   \<and> fst (checkIn utc_0900 report_at_0850_state 1705308900000 2 ''Tom Wilson'') =
     Inr \<lparr>resp_message = ''Checked in successfully'', resp_checkInTime = 1705308900000,
           resp_isLate = False\<rparr>
   \<and> (1705309500000 :: int) - 1705308600000 < 3600000
   \<and> fst (getAttendanceReport check_in_at_0855_state 1705309500000 19737 19737) =
     \<lparr>startDate = 19737, endDate = 19737, records =
     [\<lparr>r_id = 3, r_name = ''Alice Smith'', r_department = ''IT'',
       r_date = None, r_check_in_time = None, r_check_out_time = None\<rparr>,
      \<lparr>r_id = 1, r_name = ''Sarah Johnson'', r_department = ''Management'',
       r_date = None, r_check_in_time = None, r_check_out_time = None\<rparr>,
      \<lparr>r_id = 2, r_name = ''Tom Wilson'', r_department = ''IT'',
       r_date = Some 19737, r_check_in_time = Some 1705308900000, r_check_out_time = None\<rparr>]\<rparr>"
  by (simp add: report_at_0850 check_in_at_0855(1) report_at_0905 sample_null_rows)

theorem report_stale_until_expiry_witness:
  "getAttendanceReport check_in_at_0855_state 1705309080000 19737 19737 =
     (\<lparr>startDate = 19737, endDate = 19737, records =
     [\<lparr>r_id = 3, r_name = ''Alice Smith'', r_department = ''IT'',
       r_date = None, r_check_in_time = None, r_check_out_time = None\<rparr>,
      \<lparr>r_id = 1, r_name = ''Sarah Johnson'', r_department = ''Management'',
       r_date = None, r_check_in_time = None, r_check_out_time = None\<rparr>,
      \<lparr>r_id = 2, r_name = ''Tom Wilson'', r_department = ''IT'',
       r_date = None, r_check_in_time = None, r_check_out_time = None\<rparr>]\<rparr>,
      check_in_at_0855_state)
   \<and> records (fst (getAttendanceReport check_in_at_0855_state 1705309500000 19737 19737)) =
     [\<lparr>r_id = 3, r_name = ''Alice Smith'', r_department = ''IT'',
       r_date = None, r_check_in_time = None, r_check_out_time = None\<rparr>,
      \<lparr>r_id = 1, r_name = ''Sarah Johnson'', r_department = ''Management'',
       r_date = None, r_check_in_time = None, r_check_out_time = None\<rparr>,
      \<lparr>r_id = 2, r_name = ''Tom Wilson'', r_department = ''IT'',
       r_date = Some 19737, r_check_in_time = Some 1705308900000, r_check_out_time = None\<rparr>]"
proof -
  have m: "redis_get (report_keys sample_state) 1705305600000 (19737, 19737) = None"
    by (simp add: redis_get_def sample_state_def)
  have c: "checkIn utc_0900 (snd (getAttendanceReport sample_state 1705305600000 19737 19737))
      1705308900000 2 ''Tom Wilson'' =
     (Inr \<lparr>resp_message = ''Checked in successfully'', resp_checkInTime = 1705308900000,
           resp_isLate = False\<rparr>,
      check_in_at_0855_state)"
    using check_in_at_0855(1) by (simp add: report_at_0800(1))
  from report_stale_until_expiry [OF m c, of 1705309080000 1705309500000]
  show ?thesis
    by (simp add: report_at_0800(1) sample_null_rows check_in_at_0855 rows_after_check_in)
qed

section \<open>Duplicate check-ins\<close>

text \<open>
  One call after the other: after a successful check-in, a check-in of the same employee
  on the same day finds the \<open>checkin:\<close> key, which lives for 24 hours, and is
  rejected with \<open>"Already checked in today"\<close>.
\<close>

lemma same_day_within_ttl:
  assumes "getTodayDate t2 = getTodayDate t1"
  shows "t2 \<le> t1 + 86400 * 1000"
proof -
  have "t2 = t2 div 86400000 * 86400000 + t2 mod 86400000" by simp
  moreover have "t1 = t1 div 86400000 * 86400000 + t1 mod 86400000" by simp
  moreover have "t2 mod 86400000 < 86400000" "0 \<le> t1 mod 86400000" by simp_all
  ultimately show ?thesis using assms unfolding getTodayDate_def by linarith
qed

lemma checkIn_success_key:
  assumes "checkIn cfg s now userId userName = (Inr resp, s')"
  shows "checkin_keys s' (userId, getTodayDate now) = Some (now, now + 86400 * 1000)"
  using assms
  by (auto simp: checkIn_def recordCheckIn_def execute_insert_def setEx_checkin_def
      sAdd_in_office_def queueLateNotification_def redis_setEx_def Let_def
      split: if_splits prod.splits sum.splits)

lemma checkIn_again_rejected:
  assumes "checkIn cfg s t1 userId userName = (Inr resp, s1)"
    and "getTodayDate t2 = getTodayDate t1"
  shows "checkIn cfg s1 t2 userId userName' = (Inl AlreadyCheckedInToday, s1)"
proof -
  have "hasCheckedInToday s1 t2 userId (getTodayDate t2)"
    using checkIn_success_key [OF assms(1)] same_day_within_ttl [OF assms(2)] assms(2)
    by (simp add: hasCheckedInToday_def redis_get_def)
  then show ?thesis by (simp add: checkIn_def Let_def)
qed

text \<open>A call that runs alone, step by step, does what \<open>checkIn\<close> does.\<close>

lemma run_alone:
  "run_schedule cfg [0, 0, 0, 0, 0] s [start_checkIn now userId userName] =
     (snd (checkIn cfg s now userId userName),
      [(start_checkIn now userId userName)
         \<lparr>call_pc := Returned (fst (checkIn cfg s now userId userName))\<rparr>])"
  by (simp add: step_checkIn_def start_checkIn_def checkIn_def recordCheckIn_def Let_def
      execute_insert_def queueLateNotification_def
      split: prod.splits sum.splits)

text \<open>
  C1. The claim asks that of the calls of \<open>checkIn\<close> with the same arguments that run
  at the same time, exactly one returns success. The code reads the \<open>checkin:\<close> key
  and writes it in separate awaited operations. In the run below two calls for employee
  2 both read the key before either has written it: both insert, and both return
  success; the upsert leaves one row in the table.
\<close>

theorem concurrent_checkIn_both_succeed:
  "map call_pc (snd (run_schedule utc_0900 [0, 1, 0, 0, 0, 1, 1, 1] sample_state
       [start_checkIn 1705308300000 2 ''Tom Wilson'',
        start_checkIn 1705308300000 2 ''Tom Wilson'']))
   = [Returned (Inr \<lparr>resp_message = ''Checked in successfully'',
                      resp_checkInTime = 1705308300000, resp_isLate = False\<rparr>),
      Returned (Inr \<lparr>resp_message = ''Checked in successfully'',
                      resp_checkInTime = 1705308300000, resp_isLate = False\<rparr>)]
   \<and> attendance (fst (run_schedule utc_0900 [0, 1, 0, 0, 0, 1, 1, 1] sample_state
       [start_checkIn 1705308300000 2 ''Tom Wilson'',
        start_checkIn 1705308300000 2 ''Tom Wilson'']))
   = [\<lparr>att_employee_id = 2, att_date = 19737,
       att_check_in_time = Some 1705308300000, att_check_out_time = None\<rparr>]"
  by (simp add: step_checkIn_def start_checkIn_def eval_defs)

end
